theory Spec2Isabelle
  imports Main "HOL-Library.Word"
begin

unbundle bit_operations_syntax

section \<open>The token issuer of scripts/generate_jwt.py\<close>

text \<open>
  The script is one function, \<^verbatim>\<open>main\<close>: it reads two command-line arguments, reads the
  key file, reads the clock once, hands a three-entry payload to the JWT library and
  prints the token. Everything it touches outside itself (the argument vector, the file
  system, the clock, the library, standard output) is made explicit: the inputs are a
  record, and every interaction is appended to a list of effects, in order.
\<close>

subsection \<open>Values\<close>

text \<open>The payload is a Python dict of two integers and one string, in insertion order.\<close>

datatype jval = JInt int | JStr string

type_synonym payload = "(string \<times> jval) list"

text \<open>
  What \<^verbatim>\<open>open(key_path, 'r')\<close> followed by \<^verbatim>\<open>f.read()\<close> can meet at a path: nothing,
  a file the process may not read, a directory, bytes that are not text in the default
  encoding, or text.
\<close>

datatype fs_entry = Missing | Unreadable | Directory | Undecodable | Text string

text \<open>
  The exceptions that can leave \<^verbatim>\<open>main\<close>. The script catches none of them. Whatever
  the JWT library raises is kept as \<open>EncodeError\<close> with the library's description.
\<close>

datatype exn =
    IndexError
  | FileNotFoundError string
  | PermissionError string
  | IsADirectoryError string
  | UnicodeDecodeError
  | EncodeError string

text \<open>The JWT library's \<^verbatim>\<open>encode(payload, key, algorithm)\<close>: a token or an exception.\<close>

type_synonym encoder = "payload \<Rightarrow> string \<Rightarrow> string \<Rightarrow> string + string"

subsection \<open>Inputs and effects\<close>

text \<open>
  \<open>argv\<close> is \<^verbatim>\<open>sys.argv\<close>, the script's own name at index 0. \<open>unix_time k\<close> is the
  value of \<^verbatim>\<open>int(time.time())\<close> at the \<open>k\<close>-th reading of the clock (counted from 0),
  so that two readings may differ.
\<close>

record env =
  argv :: "string list"
  files :: "string \<Rightarrow> fs_entry"
  unix_time :: "nat \<Rightarrow> int"

datatype effect =
    Open string
  | Clock int
  | Encode payload string string
  | Print string

fun printed :: "effect list \<Rightarrow> string list" where
  "printed [] = []"
| "printed (Print s # tr) = s # printed tr"
| "printed (_ # tr) = printed tr"

fun encoded :: "effect list \<Rightarrow> (payload \<times> string \<times> string) list" where
  "encoded [] = []"
| "encoded (Encode p k a # tr) = (p, k, a) # encoded tr"
| "encoded (_ # tr) = encoded tr"

fun clock_reads :: "effect list \<Rightarrow> int list" where
  "clock_reads [] = []"
| "clock_reads (Clock t # tr) = t # clock_reads tr"
| "clock_reads (_ # tr) = clock_reads tr"

subsection \<open>The primitives the script calls\<close>

text \<open>\<^verbatim>\<open>sys.argv[i]\<close> for a non-negative literal \<open>i\<close>: IndexError out of range.\<close>

definition sys_argv :: "env \<Rightarrow> nat \<Rightarrow> exn + string" where
  "sys_argv e i = (if i < length (argv e) then Inr (argv e ! i) else Inl IndexError)"

text \<open>
  \<^verbatim>\<open>with open(path, 'r') as f: f.read()\<close>: one attempt, recorded whether it succeeds
  or not.
\<close>

definition open_read :: "env \<Rightarrow> string \<Rightarrow> effect list \<Rightarrow> (exn + string) \<times> effect list" where
  "open_read e path tr =
     ((case files e path of
         Missing \<Rightarrow> Inl (FileNotFoundError path)
       | Unreadable \<Rightarrow> Inl (PermissionError path)
       | Directory \<Rightarrow> Inl (IsADirectoryError path)
       | Undecodable \<Rightarrow> Inl UnicodeDecodeError
       | Text s \<Rightarrow> Inr s),
      tr @ [Open path])"

text \<open>\<^verbatim>\<open>int(time.time())\<close>: the next reading of the clock.\<close>

definition time_time :: "env \<Rightarrow> effect list \<Rightarrow> int \<times> effect list" where
  "time_time e tr =
     (let t = unix_time e (length (clock_reads tr)) in (t, tr @ [Clock t]))"

text \<open>The call into the library, recorded with its arguments.\<close>

definition call_encode ::
  "encoder \<Rightarrow> payload \<Rightarrow> string \<Rightarrow> string \<Rightarrow> effect list \<Rightarrow> (exn + string) \<times> effect list" where
  "call_encode enc p key alg tr =
     ((case enc p key alg of Inl m \<Rightarrow> Inl (EncodeError m) | Inr tok \<Rightarrow> Inr tok),
      tr @ [Encode p key alg])"

text \<open>\<^verbatim>\<open>print(s)\<close>: one line on standard output; the write itself is taken to succeed.\<close>

definition print :: "string \<Rightarrow> effect list \<Rightarrow> effect list" where
  "print s tr = tr @ [Print s]"

subsection \<open>main\<close>

text \<open>
  \<^verbatim>\<open>
  def main():
      app_id = sys.argv[1]
      key_path = sys.argv[2]
      with open(key_path, 'r') as f:
          private_key = f.read()
      iat = int(time.time())
      exp = iat + 600
      token = jwt.encode({'iat': iat, 'exp': exp, 'iss': app_id},
                         private_key, algorithm='RS256')
      print(f"JWT={token}")
  \<close>
  The result is the exception that leaves \<^verbatim>\<open>main\<close>, or \<open>()\<close>, with the effects so far.
\<close>

definition main :: "encoder \<Rightarrow> env \<Rightarrow> (exn + unit) \<times> effect list" where
  "main enc e =
     (case sys_argv e 1 of
        Inl x \<Rightarrow> (Inl x, [])
      | Inr app_id \<Rightarrow>
     (case sys_argv e 2 of
        Inl x \<Rightarrow> (Inl x, [])
      | Inr key_path \<Rightarrow>
     (case open_read e key_path [] of
        (Inl x, tr1) \<Rightarrow> (Inl x, tr1)
      | (Inr private_key, tr1) \<Rightarrow>
     (case time_time e tr1 of
        (iat, tr2) \<Rightarrow>
     (let exp = iat + 600 in
     (case call_encode enc
             [(''iat'', JInt iat), (''exp'', JInt exp), (''iss'', JStr app_id)]
             private_key ''RS256'' tr2 of
        (Inl x, tr3) \<Rightarrow> (Inl x, tr3)
      | (Inr token, tr3) \<Rightarrow> (Inr (), print (''JWT='' @ token) tr3)))))))"

subsection \<open>The process\<close>

text \<open>
  \<^verbatim>\<open>if __name__ == "__main__": main()\<close>. An exception that leaves \<^verbatim>\<open>main\<close> is not
  caught: the interpreter writes a traceback to the error stream and the process ends
  with status 1. Otherwise the status is 0. The traceback's frame lines are left out;
  its first line and the exception's class are kept.
\<close>

fun exn_name :: "exn \<Rightarrow> string" where
  "exn_name IndexError = ''IndexError''"
| "exn_name (FileNotFoundError p) = ''FileNotFoundError''"
| "exn_name (PermissionError p) = ''PermissionError''"
| "exn_name (IsADirectoryError p) = ''IsADirectoryError''"
| "exn_name UnicodeDecodeError = ''UnicodeDecodeError''"
| "exn_name (EncodeError m) = m"

definition traceback :: "exn \<Rightarrow> string list" where
  "traceback x = [''Traceback (most recent call last):'', exn_name x]"

record outcome =
  exit_code :: nat
  out :: "string list"
  err :: "string list"
  effects :: "effect list"

definition run :: "encoder \<Rightarrow> env \<Rightarrow> outcome" where
  "run enc e =
     (case main enc e of
        (Inr u, tr) \<Rightarrow> \<lparr>exit_code = 0, out = printed tr, err = [], effects = tr\<rparr>
      | (Inl x, tr) \<Rightarrow> \<lparr>exit_code = 1, out = printed tr, err = traceback x, effects = tr\<rparr>)"

subsection \<open>The specification's error taxonomy\<close>

text \<open>
  The specification names three kinds of failure; the script raises Python's own
  exceptions. An index error on the argument vector is the argument error, a failure
  to open or read the key file is the file access error, and whatever the library
  raises is the signing error.
\<close>

datatype failure = ArgumentError | FileAccessError | SigningError

fun classify :: "exn \<Rightarrow> failure" where
  "classify IndexError = ArgumentError"
| "classify (FileNotFoundError p) = FileAccessError"
| "classify (PermissionError p) = FileAccessError"
| "classify (IsADirectoryError p) = FileAccessError"
| "classify UnicodeDecodeError = FileAccessError"
| "classify (EncodeError m) = SigningError"

subsection \<open>Reading a payload\<close>

text \<open>The entry of a payload under a name, as a lookup in the dict.\<close>

definition claim :: "payload \<Rightarrow> string \<Rightarrow> jval option" where
  "claim p name = map_of p name"

subsection \<open>The compact serialization\<close>

text \<open>
  Base64 with the URL-safe alphabet and no padding: three bytes give four characters,
  a last group of one or two bytes gives two or three.
\<close>

type_synonym byte = "8 word"

definition b64url_alphabet :: string where
  "b64url_alphabet = ''ABCDEFGHIJKLMNOPQRSTUVWXYZabcdefghijklmnopqrstuvwxyz0123456789-_''"

definition b64url_char :: "6 word \<Rightarrow> char" where
  "b64url_char s = b64url_alphabet ! unat s"

fun base64url :: "byte list \<Rightarrow> string" where
  "base64url (a # b # c # bs) =
     b64url_char (ucast (drop_bit 2 a))
     # b64url_char (push_bit 4 (ucast a) OR ucast (drop_bit 4 b))
     # b64url_char (push_bit 2 (ucast b) OR ucast (drop_bit 6 c))
     # b64url_char (ucast c)
     # base64url bs"
| "base64url [a, b] =
     [b64url_char (ucast (drop_bit 2 a)),
      b64url_char (push_bit 4 (ucast a) OR ucast (drop_bit 4 b)),
      b64url_char (push_bit 2 (ucast b))]"
| "base64url [a] =
     [b64url_char (ucast (drop_bit 2 a)),
      b64url_char (push_bit 4 (ucast a))]"
| "base64url [] = []"

definition ascii_bytes :: "string \<Rightarrow> byte list" where
  "ascii_bytes s = map (\<lambda>c. of_nat (of_char c)) s"

text \<open>
  What the signing step needs from outside: the serialization of the header for an
  algorithm name and of the payload as bytes, the parsing of the key text (which may
  reject it), and the RSA signature over SHA-256 of the signing input.
\<close>

record 'k rs256 =
  header_json :: "string \<Rightarrow> byte list"
  payload_json :: "payload \<Rightarrow> byte list"
  load_key :: "string \<Rightarrow> string + 'k"
  sign :: "'k \<Rightarrow> byte list \<Rightarrow> byte list"

text \<open>
  Modelled from the spec: \<^verbatim>\<open>jwt.encode\<close> belongs to the JWT library, which is not
  part of the repository's source. Section 4.1, step 4: the claims set is signed with
  the key read in step 1, "producing a compact serialized token (three
  base64url-encoded segments: header, payload, signature, joined by \<^verbatim>\<open>.\<close>)"; the step
  "fails with a SigningError if the key content is not a valid RSA private key, is
  malformed, or is an unsupported key type".
\<close>

definition jwt_encode :: "'k rs256 \<Rightarrow> encoder" where
  "jwt_encode lib p key alg =
     (case load_key lib key of
        Inl m \<Rightarrow> Inl m
      | Inr k \<Rightarrow>
          (let signing_input =
                 base64url (header_json lib alg) @ ''.'' @ base64url (payload_json lib p)
           in Inr (signing_input @ ''.'' @ base64url (sign lib k (ascii_bytes signing_input)))))"

text \<open>The number of \<^verbatim>\<open>.\<close> separators of a token.\<close>

definition separators :: "string \<Rightarrow> nat" where
  "separators tok = length (filter (\<lambda>c. c = CHR ''.'') tok)"

text \<open>The issued-at and expiry entries of every payload handed to the library.\<close>

definition timestamps :: "effect list \<Rightarrow> (jval option \<times> jval option) list" where
  "timestamps tr = map (\<lambda>(p, k, a). (claim p ''iat'', claim p ''exp'')) (encoded tr)"

subsection \<open>Concrete runs\<close>

text \<open>
  A small stand-in for the library, used to run the model on concrete inputs: it accepts
  one key text and rejects every other, its payload bytes are the names and the string
  values of the payload, and its signature is the first four bytes of the signing input.
\<close>

fun demo_text :: "jval \<Rightarrow> string" where
  "demo_text (JInt n) = ''#''"
| "demo_text (JStr s) = s"

definition demo_lib :: "unit rs256" where
  "demo_lib =
     \<lparr>header_json = (\<lambda>alg. ascii_bytes alg),
      payload_json = (\<lambda>p. ascii_bytes (concat (map (\<lambda>(n, v). n @ demo_text v) p))),
      load_key = (\<lambda>s. if s = ''KEY'' then Inr () else Inl ''InvalidKeyError''),
      sign = (\<lambda>k m. take 4 m)\<rparr>"

definition demo_files :: "string \<Rightarrow> fs_entry" where
  "demo_files p =
     (if p = ''/tmp/test_key.pem'' \<or> p = ''/tmp/copy.pem'' then Text ''KEY''
      else if p = ''/tmp/notes.txt'' then Text ''hello world''
      else if p = ''/tmp'' then Directory
      else if p = ''/root/secret.pem'' then Unreadable
      else Missing)"

definition demo_env :: "string list \<Rightarrow> env" where
  "demo_env args =
     \<lparr>argv = ''generate_jwt.py'' # args, files = demo_files,
      unix_time = (\<lambda>k. 1700000000 + int k)\<rparr>"

section \<open>Properties\<close>

subsection \<open>Auxiliary facts\<close>

lemma b64url_char_mem: "b64url_char s \<in> set b64url_alphabet"
proof -
  have "unat s < 2 ^ LENGTH(6)" by (rule unsigned_less)
  then have "unat s < length b64url_alphabet" by (simp add: b64url_alphabet_def)
  then show ?thesis unfolding b64url_char_def by (rule nth_mem)
qed

lemma base64url_alphabet: "set (base64url bs) \<subseteq> set b64url_alphabet"
  by (induction bs rule: base64url.induct) (simp_all add: b64url_char_mem)

lemma dot_not_b64url: "CHR ''.'' \<notin> set b64url_alphabet"
  by (simp add: b64url_alphabet_def)

lemma base64url_no_dot: "filter (\<lambda>c. c = CHR ''.'') (base64url bs) = []"
  using base64url_alphabet [of bs] dot_not_b64url by (auto simp: filter_empty_conv)

lemma main_argv_short: "length (argv e) < 3 \<Longrightarrow> main enc e = (Inl IndexError, [])"
  by (simp add: main_def sys_argv_def)

lemma main_open_fails:
  assumes "2 < length (argv e)" and "\<forall>s. files e (argv e ! 2) \<noteq> Text s"
  shows "\<exists>x. main enc e = (Inl x, [Open (argv e ! 2)]) \<and> classify x = FileAccessError"
  using assms by (cases "files e (argv e ! 2)") (simp_all add: main_def sys_argv_def open_read_def)

lemma main_encode_fails:
  assumes "2 < length (argv e)" and "files e (argv e ! 2) = Text key"
    and "enc [(''iat'', JInt (unix_time e 0)), (''exp'', JInt (unix_time e 0 + 600)),
              (''iss'', JStr (argv e ! 1))] key ''RS256'' = Inl m"
  shows "main enc e = (Inl (EncodeError m),
           [Open (argv e ! 2), Clock (unix_time e 0),
            Encode [(''iat'', JInt (unix_time e 0)), (''exp'', JInt (unix_time e 0 + 600)),
              (''iss'', JStr (argv e ! 1))] key ''RS256''])"
  using assms by (simp add: main_def sys_argv_def open_read_def time_time_def call_encode_def Let_def)

lemma main_succeeds:
  assumes "2 < length (argv e)" and "files e (argv e ! 2) = Text key"
    and "enc [(''iat'', JInt (unix_time e 0)), (''exp'', JInt (unix_time e 0 + 600)),
              (''iss'', JStr (argv e ! 1))] key ''RS256'' = Inr tok"
  shows "main enc e = (Inr (),
           [Open (argv e ! 2), Clock (unix_time e 0),
            Encode [(''iat'', JInt (unix_time e 0)), (''exp'', JInt (unix_time e 0 + 600)),
              (''iss'', JStr (argv e ! 1))] key ''RS256'',
            Print (''JWT='' @ tok)])"
  using assms
  by (simp add: main_def sys_argv_def open_read_def time_time_def call_encode_def print_def Let_def)

lemma main_Inr_D:
  assumes "main enc e = (Inr u, tr)"
  shows "\<exists>key tok. 2 < length (argv e) \<and> files e (argv e ! 2) = Text key
     \<and> enc [(''iat'', JInt (unix_time e 0)), (''exp'', JInt (unix_time e 0 + 600)),
              (''iss'', JStr (argv e ! 1))] key ''RS256'' = Inr tok
     \<and> tr = [Open (argv e ! 2), Clock (unix_time e 0),
            Encode [(''iat'', JInt (unix_time e 0)), (''exp'', JInt (unix_time e 0 + 600)),
              (''iss'', JStr (argv e ! 1))] key ''RS256'',
            Print (''JWT='' @ tok)]"
proof (cases "2 < length (argv e)")
  case False
  then have "main enc e = (Inl IndexError, [])" by (simp add: main_argv_short)
  with assms show ?thesis by simp
next
  case len: True
  show ?thesis
  proof (cases "files e (argv e ! 2)")
    case (Text key)
    show ?thesis
    proof (cases "enc [(''iat'', JInt (unix_time e 0)), (''exp'', JInt (unix_time e 0 + 600)),
              (''iss'', JStr (argv e ! 1))] key ''RS256''")
      case (Inl m)
      from main_encode_fails [of e key enc m] len Text Inl assms show ?thesis by simp
    next
      case (Inr tok)
      from main_succeeds [of e key enc tok] assms len Text Inr show ?thesis by simp
    qed
  qed (use main_open_fails [OF len, of enc] assms in auto)
qed


lemma jwt_encode_rejects:
  "load_key lib key = Inl m \<Longrightarrow> jwt_encode lib p key alg = Inl m"
  by (simp add: jwt_encode_def)

lemma jwt_encode_accepts:
  assumes "load_key lib key = Inr k"
  shows "\<exists>h b s. jwt_encode lib p key alg = Inr (h @ ''.'' @ b @ ''.'' @ s)
           \<and> h = base64url (header_json lib alg) \<and> b = base64url (payload_json lib p)
           \<and> s = base64url (sign lib k (ascii_bytes (h @ ''.'' @ b)))"
  using assms by (simp add: jwt_encode_def Let_def)

lemma separators_compact:
  "separators (base64url x @ ''.'' @ base64url y @ ''.'' @ base64url z) = 2"
  by (simp add: separators_def base64url_no_dot)

text \<open>The definitions unfolded to run the model on a concrete input.\<close>

lemmas demo_defs = demo_env_def demo_files_def demo_lib_def
lemmas step_defs = main_def sys_argv_def open_read_def time_time_def call_encode_def
  print_def jwt_encode_def ascii_bytes_def b64url_char_def b64url_alphabet_def Let_def

subsection \<open>The statements of the specification\<close>

text \<open>
  C1. For every successfully generated token, the expiry timestamp of the payload minus
  its issued-at timestamp is exactly 600: a successful run reads the clock once, hands
  one payload to the library, prints the token the library returned for it, and in that
  payload \<open>iat\<close> is the clock reading and \<open>exp\<close> is 600 more.
\<close>

theorem token_lifetime_is_600:
  assumes "main enc e = (Inr (), tr)"
  shows "\<exists>p key tok t x.
           encoded tr = [(p, key, ''RS256'')] \<and> enc p key ''RS256'' = Inr tok
         \<and> printed tr = [''JWT='' @ tok] \<and> clock_reads tr = [t]
         \<and> claim p ''iat'' = Some (JInt t) \<and> claim p ''exp'' = Some (JInt x)
         \<and> x - t = 600"
proof -
  from main_Inr_D [OF assms] obtain key tok where
    enc: "enc [(''iat'', JInt (unix_time e 0)), (''exp'', JInt (unix_time e 0 + 600)),
              (''iss'', JStr (argv e ! 1))] key ''RS256'' = Inr tok"
    and tr: "tr = [Open (argv e ! 2), Clock (unix_time e 0),
            Encode [(''iat'', JInt (unix_time e 0)), (''exp'', JInt (unix_time e 0 + 600)),
              (''iss'', JStr (argv e ! 1))] key ''RS256'',
            Print (''JWT='' @ tok)]"
    by blast
  show ?thesis
    apply (rule exI [where x = "[(''iat'', JInt (unix_time e 0)), (''exp'', JInt (unix_time e 0 + 600)),
              (''iss'', JStr (argv e ! 1))]"])
    apply (rule exI [where x = key])
    apply (rule exI [where x = tok])
    apply (rule exI [where x = "unix_time e 0"])
    apply (rule exI [where x = "unix_time e 0 + 600"])
    using enc by (simp add: tr claim_def)
qed

theorem token_lifetime_is_600_witness:
  "main (jwt_encode demo_lib) (demo_env [''Iv1.abc123'', ''/tmp/test_key.pem'']) =
     (Inr (),
      [Open ''/tmp/test_key.pem'', Clock 1700000000,
       Encode [(''iat'', JInt 1700000000), (''exp'', JInt 1700000600),
               (''iss'', JStr ''Iv1.abc123'')] ''KEY'' ''RS256'',
       Print ''JWT=UlMyNTY.aWF0I2V4cCNpc3NJdjEuYWJjMTIz.VWxNeQ''])
   \<and> (\<exists>p key tok t x.
         encoded [Open ''/tmp/test_key.pem'', Clock 1700000000,
           Encode [(''iat'', JInt 1700000000), (''exp'', JInt 1700000600),
               (''iss'', JStr ''Iv1.abc123'')] ''KEY'' ''RS256'',
           Print ''JWT=UlMyNTY.aWF0I2V4cCNpc3NJdjEuYWJjMTIz.VWxNeQ''] = [(p, key, ''RS256'')]
       \<and> claim p ''iat'' = Some (JInt t) \<and> claim p ''exp'' = Some (JInt x) \<and> x - t = 600)"
proof -
  have run: "main (jwt_encode demo_lib) (demo_env [''Iv1.abc123'', ''/tmp/test_key.pem'']) =
     (Inr (),
      [Open ''/tmp/test_key.pem'', Clock 1700000000,
       Encode [(''iat'', JInt 1700000000), (''exp'', JInt 1700000600),
               (''iss'', JStr ''Iv1.abc123'')] ''KEY'' ''RS256'',
       Print ''JWT=UlMyNTY.aWF0I2V4cCNpc3NJdjEuYWJjMTIz.VWxNeQ''])"
    by (simp add: demo_defs step_defs)
  from token_lifetime_is_600 [OF run] show ?thesis using run by blast
qed

text \<open>
  C2. The issuer entry of the payload of a generated token is the first command-line
  argument as it was given.
\<close>

theorem issuer_is_app_id:
  assumes "main enc e = (Inr (), tr)"
  shows "\<exists>p key tok.
           encoded tr = [(p, key, ''RS256'')] \<and> enc p key ''RS256'' = Inr tok
         \<and> printed tr = [''JWT='' @ tok]
         \<and> 1 < length (argv e) \<and> claim p ''iss'' = Some (JStr (argv e ! 1))"
proof -
  from main_Inr_D [OF assms] obtain key tok where
    len: "2 < length (argv e)" and
    enc: "enc [(''iat'', JInt (unix_time e 0)), (''exp'', JInt (unix_time e 0 + 600)),
              (''iss'', JStr (argv e ! 1))] key ''RS256'' = Inr tok"
    and tr: "tr = [Open (argv e ! 2), Clock (unix_time e 0),
            Encode [(''iat'', JInt (unix_time e 0)), (''exp'', JInt (unix_time e 0 + 600)),
              (''iss'', JStr (argv e ! 1))] key ''RS256'',
            Print (''JWT='' @ tok)]"
    by blast
  show ?thesis
    apply (rule exI [where x = "[(''iat'', JInt (unix_time e 0)), (''exp'', JInt (unix_time e 0 + 600)),
              (''iss'', JStr (argv e ! 1))]"])
    apply (rule exI [where x = key])
    apply (rule exI [where x = tok])
    using enc len by (simp add: tr claim_def)
qed

theorem issuer_is_app_id_witness:
  "main (jwt_encode demo_lib) (demo_env [''Iv1.abc123'', ''/tmp/copy.pem'']) =
     (Inr (),
      [Open ''/tmp/copy.pem'', Clock 1700000000,
       Encode [(''iat'', JInt 1700000000), (''exp'', JInt 1700000600),
               (''iss'', JStr ''Iv1.abc123'')] ''KEY'' ''RS256'',
       Print ''JWT=UlMyNTY.aWF0I2V4cCNpc3NJdjEuYWJjMTIz.VWxNeQ''])
   \<and> (\<exists>p key. encoded [Open ''/tmp/copy.pem'', Clock 1700000000,
           Encode [(''iat'', JInt 1700000000), (''exp'', JInt 1700000600),
               (''iss'', JStr ''Iv1.abc123'')] ''KEY'' ''RS256'',
           Print ''JWT=UlMyNTY.aWF0I2V4cCNpc3NJdjEuYWJjMTIz.VWxNeQ''] = [(p, key, ''RS256'')]
         \<and> claim p ''iss'' = Some (JStr ''Iv1.abc123''))"
proof -
  have run: "main (jwt_encode demo_lib) (demo_env [''Iv1.abc123'', ''/tmp/copy.pem'']) =
     (Inr (),
      [Open ''/tmp/copy.pem'', Clock 1700000000,
       Encode [(''iat'', JInt 1700000000), (''exp'', JInt 1700000600),
               (''iss'', JStr ''Iv1.abc123'')] ''KEY'' ''RS256'',
       Print ''JWT=UlMyNTY.aWF0I2V4cCNpc3NJdjEuYWJjMTIz.VWxNeQ''])"
    by (simp add: demo_defs step_defs)
  from issuer_is_app_id [OF run] have "\<exists>p key. encoded [Open ''/tmp/copy.pem'', Clock 1700000000,
           Encode [(''iat'', JInt 1700000000), (''exp'', JInt 1700000600),
               (''iss'', JStr ''Iv1.abc123'')] ''KEY'' ''RS256'',
           Print ''JWT=UlMyNTY.aWF0I2V4cCNpc3NJdjEuYWJjMTIz.VWxNeQ''] = [(p, key, ''RS256'')]
         \<and> claim p ''iss'' = Some (JStr ''Iv1.abc123'')"
    by (simp add: demo_env_def)
  with run show ?thesis by blast
qed

text \<open>
  C3. With two arguments given, if the key path does not exist, may not be read or is a
  directory, the run fails with a file access error and status 1; its only effect is the
  single attempt to open the path, so the library is never called and nothing is printed.
\<close>

theorem unreadable_key_file_fails:
  assumes "2 < length (argv e)"
    and "files e (argv e ! 2) = Missing \<or> files e (argv e ! 2) = Unreadable
         \<or> files e (argv e ! 2) = Directory"
  shows "\<exists>x. classify x = FileAccessError
           \<and> run enc e = \<lparr>exit_code = 1, out = [], err = traceback x,
                            effects = [Open (argv e ! 2)]\<rparr>"
proof -
  from assms(2) have "\<forall>s. files e (argv e ! 2) \<noteq> Text s" by auto
  from main_open_fails [OF assms(1) this, of enc] obtain x where
    "main enc e = (Inl x, [Open (argv e ! 2)])" and "classify x = FileAccessError" by blast
  then show ?thesis by (auto simp: run_def)
qed

theorem unreadable_key_file_fails_witness:
  "2 < length (argv (demo_env [''Iv1.abc123'', ''/tmp'']))
   \<and> files (demo_env [''Iv1.abc123'', ''/tmp'']) (argv (demo_env [''Iv1.abc123'', ''/tmp'']) ! 2)
       = Directory
   \<and> (\<exists>x. classify x = FileAccessError
         \<and> run (jwt_encode demo_lib) (demo_env [''Iv1.abc123'', ''/tmp'']) =
             \<lparr>exit_code = 1, out = [], err = traceback x, effects = [Open ''/tmp'']\<rparr>)"
proof -
  have len: "2 < length (argv (demo_env [''Iv1.abc123'', ''/tmp'']))"
    by (simp add: demo_env_def)
  have dir: "files (demo_env [''Iv1.abc123'', ''/tmp''])
               (argv (demo_env [''Iv1.abc123'', ''/tmp'']) ! 2) = Directory"
    by (simp add: demo_defs)
  have path: "argv (demo_env [''Iv1.abc123'', ''/tmp'']) ! 2 = ''/tmp''"
    by (simp add: demo_env_def)
  from dir have "files (demo_env [''Iv1.abc123'', ''/tmp''])
               (argv (demo_env [''Iv1.abc123'', ''/tmp'']) ! 2) = Missing
      \<or> files (demo_env [''Iv1.abc123'', ''/tmp''])
               (argv (demo_env [''Iv1.abc123'', ''/tmp'']) ! 2) = Unreadable
      \<or> files (demo_env [''Iv1.abc123'', ''/tmp''])
               (argv (demo_env [''Iv1.abc123'', ''/tmp'']) ! 2) = Directory"
    by simp
  from unreadable_key_file_fails [OF len this, of "jwt_encode demo_lib"] len dir
  show ?thesis unfolding path by blast
qed

text \<open>
  C5. With fewer than two arguments the run fails on the argument vector: status 1,
  nothing printed, no effect at all, and a traceback on the error stream.
\<close>

theorem too_few_arguments_fail:
  assumes "length (argv e) < 3"
  shows "fst (main enc e) = Inl IndexError \<and> classify IndexError = ArgumentError
       \<and> run enc e = \<lparr>exit_code = 1, out = [], err = traceback IndexError, effects = []\<rparr>
       \<and> traceback IndexError \<noteq> []"
  using main_argv_short [OF assms, of enc] by (simp add: run_def traceback_def)

theorem too_few_arguments_fail_witness:
  "length (argv (demo_env [''Iv1.abc123''])) < 3
   \<and> run (jwt_encode demo_lib) (demo_env [''Iv1.abc123'']) =
       \<lparr>exit_code = 1, out = [], err = traceback IndexError, effects = []\<rparr>
   \<and> length (argv (demo_env [])) < 3
   \<and> run (jwt_encode demo_lib) (demo_env []) =
       \<lparr>exit_code = 1, out = [], err = traceback IndexError, effects = []\<rparr>"
proof -
  have one: "length (argv (demo_env [''Iv1.abc123''])) < 3" by (simp add: demo_env_def)
  have none: "length (argv (demo_env [])) < 3" by (simp add: demo_env_def)
  from too_few_arguments_fail [OF one, of "jwt_encode demo_lib"]
    too_few_arguments_fail [OF none, of "jwt_encode demo_lib"] one none
  show ?thesis by blast
qed

text \<open>
  C7. Every run either ends with status 0, one printed line \<^verbatim>\<open>JWT=<token>\<close> and an empty
  error stream, or ends with status 1, nothing printed and a traceback.
\<close>

theorem all_or_nothing:
  "(\<exists>tok tr. run enc e = \<lparr>exit_code = 0, out = [''JWT='' @ tok], err = [], effects = tr\<rparr>)
   \<or> (\<exists>x tr. run enc e = \<lparr>exit_code = 1, out = [], err = traceback x, effects = tr\<rparr>)"
proof (cases "main enc e")
  case (Pair r tr)
  show ?thesis
  proof (cases r)
    case (Inr u)
    with Pair have "main enc e = (Inr (), tr)" by simp
    from main_Inr_D [OF this] obtain tok where "printed tr = [''JWT='' @ tok]" by auto
    with Pair Inr show ?thesis by (simp add: run_def)
  next
    case (Inl x)
    have "printed tr = []"
    proof (cases "2 < length (argv e)")
      case False
      with Pair show ?thesis by (simp add: main_argv_short)
    next
      case len: True
      show ?thesis
      proof (cases "files e (argv e ! 2)")
        case (Text key)
        show ?thesis
        proof (cases "enc [(''iat'', JInt (unix_time e 0)), (''exp'', JInt (unix_time e 0 + 600)),
              (''iss'', JStr (argv e ! 1))] key ''RS256''")
          case (Inl m)
          from main_encode_fails [of e key enc m] len Text Inl Pair show ?thesis by simp
        next
          case (Inr tok)
          from main_succeeds [of e key enc tok] len Text Inr Pair Inl show ?thesis by simp
        qed
      qed (use main_open_fails [OF len, of enc] Pair in auto)
    qed
    with Pair Inl show ?thesis by (auto simp: run_def)
  qed
qed

text \<open>
  C10. Arguments after the second are ignored: the run is the one with the first two
  arguments alone.
\<close>

theorem extra_arguments_ignored:
  "run enc (e\<lparr>argv := a0 # a1 # a2 # rest\<rparr>) = run enc (e\<lparr>argv := [a0, a1, a2]\<rparr>)"
  by (cases "files e a2")
    (simp_all add: run_def main_def sys_argv_def open_read_def time_time_def)


text \<open>
  C4. With two arguments given and a readable key file, if the key text is not accepted
  as an RSA private key, the run fails with a signing error: status 1, a traceback, and
  nothing printed.
\<close>

theorem invalid_key_fails:
  assumes "2 < length (argv e)" and "files e (argv e ! 2) = Text key"
    and "load_key lib key = Inl m"
  shows "\<exists>tr. classify (EncodeError m) = SigningError
           \<and> run (jwt_encode lib) e =
               \<lparr>exit_code = 1, out = [], err = traceback (EncodeError m), effects = tr\<rparr>
           \<and> printed tr = []"
proof -
  have "jwt_encode lib [(''iat'', JInt (unix_time e 0)), (''exp'', JInt (unix_time e 0 + 600)),
              (''iss'', JStr (argv e ! 1))] key ''RS256'' = Inl m"
    using assms(3) by (rule jwt_encode_rejects)
  with main_encode_fails [of e key "jwt_encode lib" m] assms(1,2)
  show ?thesis by (simp add: run_def)
qed

theorem invalid_key_fails_witness:
  "2 < length (argv (demo_env [''Iv1.abc123'', ''/tmp/notes.txt'']))
   \<and> files (demo_env [''Iv1.abc123'', ''/tmp/notes.txt''])
        (argv (demo_env [''Iv1.abc123'', ''/tmp/notes.txt'']) ! 2) = Text ''hello world''
   \<and> load_key demo_lib ''hello world'' = Inl ''InvalidKeyError''
   \<and> (\<exists>tr. run (jwt_encode demo_lib) (demo_env [''Iv1.abc123'', ''/tmp/notes.txt'']) =
               \<lparr>exit_code = 1, out = [], err = traceback (EncodeError ''InvalidKeyError''),
                effects = tr\<rparr>)"
proof -
  have len: "2 < length (argv (demo_env [''Iv1.abc123'', ''/tmp/notes.txt'']))"
    by (simp add: demo_env_def)
  have key_text: "files (demo_env [''Iv1.abc123'', ''/tmp/notes.txt''])
        (argv (demo_env [''Iv1.abc123'', ''/tmp/notes.txt'']) ! 2) = Text ''hello world''"
    by (simp add: demo_defs)
  have rej: "load_key demo_lib ''hello world'' = Inl ''InvalidKeyError''"
    by (simp add: demo_lib_def)
  from invalid_key_fails [OF len key_text rej] len key_text rej show ?thesis by blast
qed

text \<open>
  C6. With two arguments given, a readable key file and a key text that is accepted, the
  run ends with status 0 and prints the single line \<^verbatim>\<open>JWT=<token>\<close>. The token is the one
  the library returns for the payload of this run: the base64url of the header, of the
  payload and of the signature over the first two, joined by \<^verbatim>\<open>.\<close>; each segment is over
  the base64url alphabet, so the token has exactly two \<^verbatim>\<open>.\<close> separators.
\<close>

theorem success_prints_one_token_line:
  assumes "2 < length (argv e)" and "files e (argv e ! 2) = Text key"
    and "load_key lib key = Inr k"
  shows "\<exists>p h b s.
           p = [(''iat'', JInt (unix_time e 0)), (''exp'', JInt (unix_time e 0 + 600)),
                (''iss'', JStr (argv e ! 1))]
         \<and> h = base64url (header_json lib ''RS256'')
         \<and> b = base64url (payload_json lib p)
         \<and> s = base64url (sign lib k (ascii_bytes (h @ ''.'' @ b)))
         \<and> jwt_encode lib p key ''RS256'' = Inr (h @ ''.'' @ b @ ''.'' @ s)
         \<and> exit_code (run (jwt_encode lib) e) = 0
         \<and> out (run (jwt_encode lib) e) = [''JWT='' @ h @ ''.'' @ b @ ''.'' @ s]
         \<and> effects (run (jwt_encode lib) e) =
             [Open (argv e ! 2), Clock (unix_time e 0), Encode p key ''RS256'',
              Print (''JWT='' @ h @ ''.'' @ b @ ''.'' @ s)]
         \<and> set h \<subseteq> set b64url_alphabet \<and> set b \<subseteq> set b64url_alphabet
         \<and> set s \<subseteq> set b64url_alphabet
         \<and> separators (h @ ''.'' @ b @ ''.'' @ s) = 2"
proof -
  let ?p = "[(''iat'', JInt (unix_time e 0)), (''exp'', JInt (unix_time e 0 + 600)),
              (''iss'', JStr (argv e ! 1))]"
  from jwt_encode_accepts [OF assms(3), of ?p "''RS256''"] obtain h b s where
    tok: "jwt_encode lib ?p key ''RS256'' = Inr (h @ ''.'' @ b @ ''.'' @ s)"
    and h: "h = base64url (header_json lib ''RS256'')"
    and b: "b = base64url (payload_json lib ?p)"
    and s: "s = base64url (sign lib k (ascii_bytes (h @ ''.'' @ b)))"
    by blast
  from main_succeeds [of e key "jwt_encode lib" "h @ ''.'' @ b @ ''.'' @ s"] assms(1,2) tok
  have run: "run (jwt_encode lib) e =
    \<lparr>exit_code = 0, out = [''JWT='' @ h @ ''.'' @ b @ ''.'' @ s], err = [],
     effects = [Open (argv e ! 2), Clock (unix_time e 0), Encode ?p key ''RS256'',
                Print (''JWT='' @ h @ ''.'' @ b @ ''.'' @ s)]\<rparr>"
    by (simp add: run_def)
  have sep: "separators (h @ ''.'' @ b @ ''.'' @ s) = 2"
    unfolding h b s by (rule separators_compact)
  have alph: "set h \<subseteq> set b64url_alphabet" "set b \<subseteq> set b64url_alphabet"
    "set s \<subseteq> set b64url_alphabet"
    unfolding h b s by (rule base64url_alphabet)+
  show ?thesis
    apply (rule exI [where x = ?p])
    apply (rule exI [where x = h])
    apply (rule exI [where x = b])
    apply (rule exI [where x = s])
    using sep alph tok h b s by (simp add: run)
qed

theorem success_prints_one_token_line_witness:
  "2 < length (argv (demo_env [''Iv1.abc123'', ''/tmp/test_key.pem'']))
   \<and> files (demo_env [''Iv1.abc123'', ''/tmp/test_key.pem''])
        (argv (demo_env [''Iv1.abc123'', ''/tmp/test_key.pem'']) ! 2) = Text ''KEY''
   \<and> load_key demo_lib ''KEY'' = Inr ()
   \<and> exit_code (run (jwt_encode demo_lib) (demo_env [''Iv1.abc123'', ''/tmp/test_key.pem''])) = 0
   \<and> out (run (jwt_encode demo_lib) (demo_env [''Iv1.abc123'', ''/tmp/test_key.pem'']))
       = [''JWT=UlMyNTY.aWF0I2V4cCNpc3NJdjEuYWJjMTIz.VWxNeQ'']
   \<and> jwt_encode demo_lib
        [(''iat'', JInt 1700000000), (''exp'', JInt 1700000600), (''iss'', JStr ''Iv1.abc123'')]
        ''KEY'' ''RS256''
       = Inr ''UlMyNTY.aWF0I2V4cCNpc3NJdjEuYWJjMTIz.VWxNeQ''
   \<and> separators ''UlMyNTY.aWF0I2V4cCNpc3NJdjEuYWJjMTIz.VWxNeQ'' = 2"
proof -
  have len: "2 < length (argv (demo_env [''Iv1.abc123'', ''/tmp/test_key.pem'']))"
    by (simp add: demo_env_def)
  have key_text: "files (demo_env [''Iv1.abc123'', ''/tmp/test_key.pem''])
        (argv (demo_env [''Iv1.abc123'', ''/tmp/test_key.pem'']) ! 2) = Text ''KEY''"
    by (simp add: demo_defs)
  have acc: "load_key demo_lib ''KEY'' = Inr ()"
    by (simp add: demo_lib_def)
  from success_prints_one_token_line [OF len key_text acc] obtain p h b s where
    p: "p = [(''iat'', JInt (unix_time (demo_env [''Iv1.abc123'', ''/tmp/test_key.pem'']) 0)),
             (''exp'', JInt (unix_time (demo_env [''Iv1.abc123'', ''/tmp/test_key.pem'']) 0 + 600)),
             (''iss'', JStr (argv (demo_env [''Iv1.abc123'', ''/tmp/test_key.pem'']) ! 1))]"
    and h: "h = base64url (header_json demo_lib ''RS256'')"
    and b: "b = base64url (payload_json demo_lib p)"
    and s: "s = base64url (sign demo_lib () (ascii_bytes (h @ ''.'' @ b)))"
    and tok: "jwt_encode demo_lib p ''KEY'' ''RS256'' = Inr (h @ ''.'' @ b @ ''.'' @ s)"
    and ex: "exit_code (run (jwt_encode demo_lib) (demo_env [''Iv1.abc123'', ''/tmp/test_key.pem''])) = 0"
    and ou: "out (run (jwt_encode demo_lib) (demo_env [''Iv1.abc123'', ''/tmp/test_key.pem'']))
               = [''JWT='' @ h @ ''.'' @ b @ ''.'' @ s]"
    and sep: "separators (h @ ''.'' @ b @ ''.'' @ s) = 2"
    by blast
  have p': "p = [(''iat'', JInt 1700000000), (''exp'', JInt 1700000600),
                 (''iss'', JStr ''Iv1.abc123'')]"
    unfolding p by (simp add: demo_env_def)
  have h': "h = ''UlMyNTY''"
    unfolding h by (simp add: demo_lib_def ascii_bytes_def b64url_char_def b64url_alphabet_def)
  have b': "b = ''aWF0I2V4cCNpc3NJdjEuYWJjMTIz''"
    unfolding b p' by (simp add: demo_lib_def ascii_bytes_def b64url_char_def b64url_alphabet_def)
  have s': "s = ''VWxNeQ''"
    unfolding s h' b' by (simp add: demo_lib_def ascii_bytes_def b64url_char_def b64url_alphabet_def)
  from len key_text acc ex ou tok sep show ?thesis
    unfolding p' h' b' s' by simp
qed

text \<open>
  C8. Two runs that reach the library and read the same integer timestamp hand it the
  same \<open>iat\<close> and \<open>exp\<close>, whatever their other inputs; if they also have the same
  first argument and the same key text (under possibly different paths), they print the
  same output, end with the same status and error stream, and call the library with the
  same arguments.
\<close>

theorem same_inputs_same_token:
  assumes "2 < length (argv e1)" and "2 < length (argv e2)"
    and "files e1 (argv e1 ! 2) = Text key1" and "files e2 (argv e2 ! 2) = Text key2"
    and "unix_time e1 0 = unix_time e2 0"
  shows "timestamps (effects (run enc1 e1)) = timestamps (effects (run enc2 e2))
       \<and> (argv e1 ! 1 = argv e2 ! 1 \<and> key1 = key2 \<longrightarrow>
            out (run enc e1) = out (run enc e2)
          \<and> exit_code (run enc e1) = exit_code (run enc e2)
          \<and> err (run enc e1) = err (run enc e2)
          \<and> encoded (effects (run enc e1)) = encoded (effects (run enc e2)))"
proof -
  have eff: "encoded (effects (run enc e)) =
      [([(''iat'', JInt (unix_time e 0)), (''exp'', JInt (unix_time e 0 + 600)),
              (''iss'', JStr (argv e ! 1))], key, ''RS256'')]
     \<and> out (run enc e) = (case enc [(''iat'', JInt (unix_time e 0)), (''exp'', JInt (unix_time e 0 + 600)),
              (''iss'', JStr (argv e ! 1))] key ''RS256'' of Inl m \<Rightarrow> [] | Inr tok \<Rightarrow> [''JWT='' @ tok])
     \<and> exit_code (run enc e) = (case enc [(''iat'', JInt (unix_time e 0)), (''exp'', JInt (unix_time e 0 + 600)),
              (''iss'', JStr (argv e ! 1))] key ''RS256'' of Inl m \<Rightarrow> 1 | Inr tok \<Rightarrow> 0)
     \<and> err (run enc e) = (case enc [(''iat'', JInt (unix_time e 0)), (''exp'', JInt (unix_time e 0 + 600)),
              (''iss'', JStr (argv e ! 1))] key ''RS256'' of Inl m \<Rightarrow> traceback (EncodeError m) | Inr tok \<Rightarrow> [])"
    if "2 < length (argv e)" and "files e (argv e ! 2) = Text key" for enc e key
  proof (cases "enc [(''iat'', JInt (unix_time e 0)), (''exp'', JInt (unix_time e 0 + 600)),
              (''iss'', JStr (argv e ! 1))] key ''RS256''")
    case (Inl m)
    from main_encode_fails [of e key enc m] that Inl show ?thesis by (simp add: run_def)
  next
    case (Inr tok)
    from main_succeeds [of e key enc tok] that Inr show ?thesis by (simp add: run_def)
  qed
  from eff [OF assms(1,3), of enc1] eff [OF assms(2,4), of enc2] assms(5)
  have "timestamps (effects (run enc1 e1)) = timestamps (effects (run enc2 e2))"
    by (simp add: timestamps_def claim_def)
  moreover have "out (run enc e1) = out (run enc e2)
          \<and> exit_code (run enc e1) = exit_code (run enc e2)
          \<and> err (run enc e1) = err (run enc e2)
          \<and> encoded (effects (run enc e1)) = encoded (effects (run enc e2))"
    if "argv e1 ! 1 = argv e2 ! 1" and "key1 = key2"
    using eff [OF assms(1,3), of enc] eff [OF assms(2,4), of enc] assms(5) that by simp
  ultimately show ?thesis by blast
qed

theorem same_inputs_same_token_witness:
  "2 < length (argv (demo_env [''Iv1.abc123'', ''/tmp/test_key.pem'']))
   \<and> 2 < length (argv (demo_env [''Iv1.abc123'', ''/tmp/copy.pem'', ''extra'']))
   \<and> files (demo_env [''Iv1.abc123'', ''/tmp/test_key.pem''])
        (argv (demo_env [''Iv1.abc123'', ''/tmp/test_key.pem'']) ! 2) = Text ''KEY''
   \<and> files (demo_env [''Iv1.abc123'', ''/tmp/copy.pem'', ''extra''])
        (argv (demo_env [''Iv1.abc123'', ''/tmp/copy.pem'', ''extra'']) ! 2) = Text ''KEY''
   \<and> unix_time (demo_env [''Iv1.abc123'', ''/tmp/test_key.pem'']) 0
       = unix_time (demo_env [''Iv1.abc123'', ''/tmp/copy.pem'', ''extra'']) 0
   \<and> argv (demo_env [''Iv1.abc123'', ''/tmp/test_key.pem'']) ! 1
       = argv (demo_env [''Iv1.abc123'', ''/tmp/copy.pem'', ''extra'']) ! 1
   \<and> out (run (jwt_encode demo_lib) (demo_env [''Iv1.abc123'', ''/tmp/test_key.pem'']))
       = out (run (jwt_encode demo_lib) (demo_env [''Iv1.abc123'', ''/tmp/copy.pem'', ''extra'']))
   \<and> timestamps (effects (run (jwt_encode demo_lib) (demo_env [''Iv1.abc123'', ''/tmp/test_key.pem''])))
       = timestamps (effects (run (\<lambda>p k a. Inl ''down'')
                                  (demo_env [''Iv1.abc123'', ''/tmp/copy.pem'', ''extra''])))"
proof -
  have len1: "2 < length (argv (demo_env [''Iv1.abc123'', ''/tmp/test_key.pem'']))"
    and len2: "2 < length (argv (demo_env [''Iv1.abc123'', ''/tmp/copy.pem'', ''extra'']))"
    by (simp_all add: demo_env_def)
  have key1_text: "files (demo_env [''Iv1.abc123'', ''/tmp/test_key.pem''])
        (argv (demo_env [''Iv1.abc123'', ''/tmp/test_key.pem'']) ! 2) = Text ''KEY''"
    and key2_text: "files (demo_env [''Iv1.abc123'', ''/tmp/copy.pem'', ''extra''])
        (argv (demo_env [''Iv1.abc123'', ''/tmp/copy.pem'', ''extra'']) ! 2) = Text ''KEY''"
    by (simp_all add: demo_defs)
  have clk: "unix_time (demo_env [''Iv1.abc123'', ''/tmp/test_key.pem'']) 0
       = unix_time (demo_env [''Iv1.abc123'', ''/tmp/copy.pem'', ''extra'']) 0"
    by (simp add: demo_env_def)
  have app: "argv (demo_env [''Iv1.abc123'', ''/tmp/test_key.pem'']) ! 1
       = argv (demo_env [''Iv1.abc123'', ''/tmp/copy.pem'', ''extra'']) ! 1"
    by (simp add: demo_env_def)
  from same_inputs_same_token [OF len1 len2 key1_text key2_text clk,
      of "jwt_encode demo_lib" "\<lambda>p k a. Inl ''down''" "jwt_encode demo_lib"]
    len1 len2 key1_text key2_text clk app
  show ?thesis by blast
qed

text \<open>
  C9. The empty string is accepted as the first argument: with a readable key file whose
  text the library signs with, the run ends with status 0 and prints the token of a
  payload whose issuer is the empty string.
\<close>

theorem empty_app_id_accepted:
  assumes "2 < length (argv e)" and "argv e ! 1 = []"
    and "files e (argv e ! 2) = Text key"
    and "\<forall>p. \<exists>tok. enc p key ''RS256'' = Inr tok"
  shows "\<exists>tok p. exit_code (run enc e) = 0
           \<and> out (run enc e) = [''JWT='' @ tok]
           \<and> encoded (effects (run enc e)) = [(p, key, ''RS256'')]
           \<and> enc p key ''RS256'' = Inr tok
           \<and> claim p ''iss'' = Some (JStr [])"
proof -
  let ?p = "[(''iat'', JInt (unix_time e 0)), (''exp'', JInt (unix_time e 0 + 600)),
              (''iss'', JStr (argv e ! 1))]"
  from assms(4) obtain tok where tok: "enc ?p key ''RS256'' = Inr tok" by blast
  from main_succeeds [of e key enc tok] assms(1,3) tok
  have "main enc e = (Inr (),
           [Open (argv e ! 2), Clock (unix_time e 0), Encode ?p key ''RS256'',
            Print (''JWT='' @ tok)])" by simp
  then show ?thesis
    apply -
    apply (rule exI [where x = tok])
    apply (rule exI [where x = ?p])
    using tok assms(2) by (simp add: run_def claim_def)
qed

theorem empty_app_id_accepted_witness:
  "2 < length (argv (demo_env [[], ''/tmp/test_key.pem'']))
   \<and> argv (demo_env [[], ''/tmp/test_key.pem'']) ! 1 = []
   \<and> files (demo_env [[], ''/tmp/test_key.pem''])
        (argv (demo_env [[], ''/tmp/test_key.pem'']) ! 2) = Text ''KEY''
   \<and> (\<forall>p. \<exists>tok. jwt_encode demo_lib p ''KEY'' ''RS256'' = Inr tok)
   \<and> (\<exists>tok p.
         exit_code (run (jwt_encode demo_lib) (demo_env [[], ''/tmp/test_key.pem''])) = 0
       \<and> out (run (jwt_encode demo_lib) (demo_env [[], ''/tmp/test_key.pem''])) = [''JWT='' @ tok]
       \<and> encoded (effects (run (jwt_encode demo_lib) (demo_env [[], ''/tmp/test_key.pem''])))
           = [(p, ''KEY'', ''RS256'')]
       \<and> claim p ''iss'' = Some (JStr []))"
proof -
  have len: "2 < length (argv (demo_env [[], ''/tmp/test_key.pem'']))"
    and emp: "argv (demo_env [[], ''/tmp/test_key.pem'']) ! 1 = []"
    by (simp_all add: demo_env_def)
  have key_text: "files (demo_env [[], ''/tmp/test_key.pem''])
        (argv (demo_env [[], ''/tmp/test_key.pem'']) ! 2) = Text ''KEY''"
    by (simp add: demo_defs)
  have acc: "\<forall>p. \<exists>tok. jwt_encode demo_lib p ''KEY'' ''RS256'' = Inr tok"
    by (simp add: jwt_encode_def demo_lib_def Let_def)
  from empty_app_id_accepted
         [of "demo_env [[], ''/tmp/test_key.pem'']" "''KEY''" "jwt_encode demo_lib",
          OF len emp key_text acc]
    len emp key_text acc
  show ?thesis by blast
qed

end
